theory Spec2Isabelle
  imports Main
begin

section \<open>The provider bridge service: origin authorization and RPC routing\<close>

text \<open>
  A shallow embedding of \<^verbatim>\<open>ProviderBridgeService\<close> (the background service that talks to
  the content scripts of dApp pages). Asynchronous methods are atomic state transformers:
  each returns the effects it performs, in order, and the service afterwards. The one true
  suspension point, the wait for the user's decision in \<^verbatim>\<open>onMessageListener\<close>, splits that
  method in two: the part up to the wait and the part after it. The callbacks that a
  broadcast starts run to their end within the call that starts them. Logging is left out.
\<close>

subsection \<open>Values crossing the channel\<close>

datatype jsval =
    JUndefined
  | JNull
  | JBool bool
  | JNum int
  | JStr string
  | JArr "jsval list"
  | JObj "(string \<times> jsval) list"

text \<open>\<^verbatim>\<open>params[i]\<close>: reading past the end of an array gives \<^verbatim>\<open>undefined\<close>.\<close>

definition param :: "jsval list \<Rightarrow> nat \<Rightarrow> jsval" where
  "param ps i = (if i < length ps then ps ! i else JUndefined)"

text \<open>\<^verbatim>\<open>obj.name\<close> on a value that carries properties; \<^verbatim>\<open>undefined\<close> when there is none.\<close>

definition property :: "jsval \<Rightarrow> string \<Rightarrow> jsval" where
  "property v k =
     (case v of
        JObj fs \<Rightarrow> (case map_of fs k of Some x \<Rightarrow> x | None \<Rightarrow> JUndefined)
      | _ \<Rightarrow> JUndefined)"

record PermissionRequest =
  key :: string
  origin :: string
  faviconUrl :: string
  title :: string
  state :: string
  accountAddress :: string

text \<open>
  The request and the two envelopes. The field \<^verbatim>\<open>method\<close> of a request is \<open>methodName\<close>
  here, and the field \<^verbatim>\<open>id\<close> of an envelope is \<open>req_id\<close> in a request event and \<open>resp_id\<close>
  in a response event.
\<close>

record RPCRequest =
  methodName :: string
  params :: "jsval list"

record PortRequestEvent =
  req_id :: string
  request :: RPCRequest

text \<open>
  Modelled from the spec: the error vocabulary \<^verbatim>\<open>EIP1193_ERROR_CODES\<close> of the shared
  provider-bridge package, which is not part of the sources at hand. Only the two codes
  the service uses are listed; \<open>EIP1193Error c\<close> stands for
  \<^verbatim>\<open>new EIP1193Error(c).toJSON()\<close>, an object \<^verbatim>\<open>{code, message}\<close>.
\<close>

datatype EIP1193_ERROR_CODES = userRejectedRequest | unauthorized

datatype response_result =
    Result jsval
  | EIP1193Error EIP1193_ERROR_CODES

record PortResponseEvent =
  resp_id :: string
  result :: response_result

datatype AllowedQueryParamPage = dappPermission | signData | personalSignData | signTransaction

record Tab =
  tab_id :: "nat option"
  favIconUrl :: "string option"
  tab_title :: "string option"

record Port =
  port_id :: nat
  port_name :: string
  sender_url :: "string option"
  sender_tab :: "Tab option"

text \<open>Whatever a rejected promise or a \<^verbatim>\<open>throw\<close> carries.\<close>

datatype exn = UnauthorizedSigner | Failure string

text \<open>The \<^verbatim>\<open>id\<close> of a \<^verbatim>\<open>browser.Windows.Window\<close>, which may be undefined.\<close>

type_synonym Window = "nat option"

datatype emitted =
    requestPermissionEvent PermissionRequest
  | setClaimReferrerEvent string

datatype effect =
    PostMessage nat PortResponseEvent
  | Emit emitted
  | ShowPopup AllowedQueryParamPage
  | WindowsRemove nat
  | InternalCall string "jsval list"
  | Resolved nat "PermissionRequest + string"

text \<open>
  What the service imports and does not define: the classifier of internal configuration
  queries, two constants, the platform's URL parser and tab query, the popup opener, the
  internal Ethereum provider's safe dispatch, and \<^verbatim>\<open>normalizeHexAddress\<close> of the key-ring
  package, which the address compare calls. A popup, a dispatch or a normalization may
  fail (\<open>Inl\<close>).
\<close>

record env =
  isTallyConfigPayload :: "RPCRequest \<Rightarrow> bool"
  WEBSITE_ORIGIN :: string
  EXTERNAL_PORT_NAME :: string
  URL_origin :: "string \<Rightarrow> string"
  tabs_get :: "nat \<Rightarrow> Tab"
  showExtensionPopup :: "AllowedQueryParamPage \<Rightarrow> exn + Window"
  routeSafeRPCRequest :: "string \<Rightarrow> jsval list \<Rightarrow> exn + jsval"
  normalizeHexAddress :: "jsval \<Rightarrow> exn + string"

subsection \<open>The permission store\<close>

text \<open>
  Modelled from the spec: the database class \<^verbatim>\<open>ProviderBridgeServiceDatabase\<close> is not part
  of the sources at hand. The spec describes a dumb durable map from (origin, account) to a
  grant: \<^verbatim>\<open>get(origin, account)\<close> looks up without side effects, \<^verbatim>\<open>put(grant)\<close> upserts on
  the grant's key, which is derived from its origin and account, and
  \<^verbatim>\<open>delete(origin, account)\<close> removes the entry and is a no-op when there is none. I/O
  failure of the store is outside the model.
\<close>

type_synonym ProviderBridgeServiceDatabase = "string \<times> string \<rightharpoonup> PermissionRequest"

definition db_checkPermission ::
  "ProviderBridgeServiceDatabase \<Rightarrow> string \<Rightarrow> string \<Rightarrow> PermissionRequest option" where
  "db_checkPermission d orig address = d (orig, address)"

definition db_setPermission ::
  "ProviderBridgeServiceDatabase \<Rightarrow> PermissionRequest \<Rightarrow> ProviderBridgeServiceDatabase" where
  "db_setPermission d permission = d((origin permission, accountAddress permission) \<mapsto> permission)"

definition db_deletePermission ::
  "ProviderBridgeServiceDatabase \<Rightarrow> string \<Rightarrow> string \<Rightarrow> ProviderBridgeServiceDatabase" where
  "db_deletePermission d orig address = d((orig, address) := None)"

subsection \<open>The authorization policy\<close>

text \<open>
  \<^verbatim>\<open>sameEVMAddress\<close> of \<^verbatim>\<open>lib/utils\<close>: false when either address is undefined, and
  otherwise the equality of the two normalized addresses, the first normalized first.
\<close>

definition sameEVMAddress :: "env \<Rightarrow> jsval \<Rightarrow> jsval \<Rightarrow> exn + bool" where
  "sameEVMAddress e address1 address2 =
     (if address1 = JUndefined \<or> address2 = JUndefined then Inr False
      else
        (case normalizeHexAddress e address1 of
           Inl err \<Rightarrow> Inl err
         | Inr a \<Rightarrow>
             (case normalizeHexAddress e address2 of
                Inl err \<Rightarrow> Inl err
              | Inr b \<Rightarrow> Inr (a = b))))"

text \<open>
  Modelled from the spec: the module \<^verbatim>\<open>./authorization\<close> is not part of the sources at
  hand. The spec: the address carried by the call must equal the grant's
  \<^verbatim>\<open>accountAddress\<close>, by a compare after normalization, which is \<open>sameEVMAddress\<close>; for a
  transaction the \<^verbatim>\<open>from\<close> field is compared and an absent one is rejected; a policy
  function either returns normally or fails with \<^verbatim>\<open>UnauthorizedSigner\<close>. A compare that
  fails by itself makes the policy function fail with it.
\<close>

definition checkPermissionSignTypedData ::
  "env \<Rightarrow> jsval \<Rightarrow> PermissionRequest \<Rightarrow> exn + unit" where
  "checkPermissionSignTypedData e walletAddress enablingPermission =
     (case sameEVMAddress e walletAddress (JStr (accountAddress enablingPermission)) of
        Inl err \<Rightarrow> Inl err
      | Inr same \<Rightarrow> if same then Inr () else Inl UnauthorizedSigner)"

definition checkPermissionSign :: "env \<Rightarrow> jsval \<Rightarrow> PermissionRequest \<Rightarrow> exn + unit" where
  "checkPermissionSign e walletAddress enablingPermission =
     (case sameEVMAddress e walletAddress (JStr (accountAddress enablingPermission)) of
        Inl err \<Rightarrow> Inl err
      | Inr same \<Rightarrow> if same then Inr () else Inl UnauthorizedSigner)"

definition checkPermissionSignTransaction ::
  "env \<Rightarrow> jsval \<Rightarrow> PermissionRequest \<Rightarrow> exn + unit" where
  "checkPermissionSignTransaction e transactionRequest enablingPermission =
     (case sameEVMAddress e (property transactionRequest ''from'')
             (JStr (accountAddress enablingPermission)) of
        Inl err \<Rightarrow> Inl err
      | Inr same \<Rightarrow> if same then Inr () else Inl UnauthorizedSigner)"

subsection \<open>The service\<close>

text \<open>
  The fields of the class, the two values it reads from the preference service
  (\<^verbatim>\<open>getSelectedAccount().address\<close> and \<^verbatim>\<open>getDefaultWallet()\<close>), and what the runtime holds
  for it: a counter naming each promise that \<^verbatim>\<open>requestPermission\<close> creates, and the
  listeners suspended on such a promise, each with its port, its event and the origin it
  had computed. A resolver in the pending table is named by the promise it resolves.
\<close>

record service =
  db :: ProviderBridgeServiceDatabase
  pendingPermissionsRequests :: "string \<rightharpoonup> nat"
  openPorts :: "Port list"
  selectedAccount :: string
  defaultWallet :: bool
  promiseCounter :: nat
  suspended :: "nat \<rightharpoonup> Port \<times> PortRequestEvent \<times> string"

text \<open>The listener of \<^verbatim>\<open>browser.runtime.onConnect\<close> and the one of \<^verbatim>\<open>port.onDisconnect\<close>.\<close>

definition onConnect :: "env \<Rightarrow> service \<Rightarrow> Port \<Rightarrow> service" where
  "onConnect e s port =
     (if port_name port = EXTERNAL_PORT_NAME e
         \<and> sender_url port \<noteq> None \<and> sender_url port \<noteq> Some []
      then s\<lparr>openPorts := openPorts s @ [port]\<rparr>
      else s)"

definition onDisconnect :: "service \<Rightarrow> Port \<Rightarrow> service" where
  "onDisconnect s port = s\<lparr>openPorts := filter (\<lambda>openPort. openPort \<noteq> port) (openPorts s)\<rparr>"

definition checkPermission :: "service \<Rightarrow> string \<Rightarrow> string option \<Rightarrow> PermissionRequest option" where
  "checkPermission s orig address =
     (let selectedAddress = selectedAccount s;
          currentAddress = (case address of Some a \<Rightarrow> a | None \<Rightarrow> selectedAddress)
      in db_checkPermission (db s) orig currentAddress)"

text \<open>
  \<^verbatim>\<open>routeSafeRequest\<close>: the dispatch, and in its \<^verbatim>\<open>finally\<close> the wait for the popup, which
  is then closed when its id is defined. A popup promise that was rejected makes the
  \<^verbatim>\<open>finally\<close> callback fail, and that failure replaces the outcome of the dispatch.
\<close>

definition routeSafeRequest ::
  "env \<Rightarrow> string \<Rightarrow> jsval list \<Rightarrow> exn + Window \<Rightarrow> (exn + jsval) \<times> effect list" where
  "routeSafeRequest e m ps popupPromise =
     (let response = routeSafeRPCRequest e m ps
      in case popupPromise of
           Inl err \<Rightarrow> (Inl err, [InternalCall m ps])
         | Inr popup \<Rightarrow>
             (response,
              InternalCall m ps # (case popup of Some i \<Rightarrow> [WindowsRemove i] | None \<Rightarrow> [])))"

text \<open>The groups of \<^verbatim>\<open>case\<close> labels in the \<^verbatim>\<open>switch\<close> of \<^verbatim>\<open>routeContentScriptRPCRequest\<close>.\<close>

definition accounts_case :: "string \<Rightarrow> bool" where
  "accounts_case m = (m = ''eth_requestAccounts'' \<or> m = ''eth_accounts'')"

definition typed_data_case :: "string \<Rightarrow> bool" where
  "typed_data_case m =
     (m = ''eth_signTypedData'' \<or> m = ''eth_signTypedData_v1''
      \<or> m = ''eth_signTypedData_v3'' \<or> m = ''eth_signTypedData_v4'')"

definition sign_case :: "string \<Rightarrow> bool" where
  "sign_case m = (m = ''eth_sign'' \<or> m = ''personal_sign'')"

definition transaction_case :: "string \<Rightarrow> bool" where
  "transaction_case m = (m = ''eth_signTransaction'' \<or> m = ''eth_sendTransaction'')"

text \<open>
  The body of the \<^verbatim>\<open>try\<close> block of \<^verbatim>\<open>routeContentScriptRPCRequest\<close>. The popup is opened
  while the arguments of \<^verbatim>\<open>routeSafeRequest\<close> are evaluated, after the policy check.
\<close>

definition route_try ::
  "env \<Rightarrow> PermissionRequest \<Rightarrow> string \<Rightarrow> jsval list \<Rightarrow> (exn + jsval) \<times> effect list" where
  "route_try e enablingPermission m ps =
     (if accounts_case m then
        (Inr (JArr [JStr (accountAddress enablingPermission)]), [])
      else if typed_data_case m then
        (case checkPermissionSignTypedData e (param ps 0) enablingPermission of
           Inl err \<Rightarrow> (Inl err, [])
         | Inr _ \<Rightarrow>
             (case routeSafeRequest e m ps (showExtensionPopup e signData) of
                (r, effs) \<Rightarrow> (r, ShowPopup signData # effs)))
      else if sign_case m then
        (case checkPermissionSign e (param ps 1) enablingPermission of
           Inl err \<Rightarrow> (Inl err, [])
         | Inr _ \<Rightarrow>
             (case routeSafeRequest e m ps (showExtensionPopup e personalSignData) of
                (r, effs) \<Rightarrow> (r, ShowPopup personalSignData # effs)))
      else if transaction_case m then
        (case checkPermissionSignTransaction e (param ps 0) enablingPermission of
           Inl err \<Rightarrow> (Inl err, [])
         | Inr _ \<Rightarrow>
             (case routeSafeRequest e m ps (showExtensionPopup e signTransaction) of
                (r, effs) \<Rightarrow> (r, ShowPopup signTransaction # effs)))
      else (routeSafeRPCRequest e m ps, [InternalCall m ps]))"

text \<open>The \<^verbatim>\<open>catch\<close> turns whatever was thrown into the rejection object.\<close>

definition routeContentScriptRPCRequest ::
  "env \<Rightarrow> PermissionRequest \<Rightarrow> string \<Rightarrow> jsval list \<Rightarrow> response_result \<times> effect list" where
  "routeContentScriptRPCRequest e enablingPermission m ps =
     (case route_try e enablingPermission m ps of
        (Inr v, effs) \<Rightarrow> (Result v, effs)
      | (Inl err, effs) \<Rightarrow> (EIP1193Error userRejectedRequest, effs))"

subsection \<open>Broadcasts\<close>

definition notifyContentScriptAboutConfigChange :: "service \<Rightarrow> bool \<Rightarrow> effect list" where
  "notifyContentScriptAboutConfigChange s newDefaultWalletValue =
     map (\<lambda>p. PostMessage (port_id p)
                 \<lparr>resp_id = ''tallyHo'',
                  result = Result (JObj [(''method'', JStr ''tally_getConfig''),
                                         (''defaultWallet'', JBool newDefaultWalletValue)])\<rparr>)
         (openPorts s)"

text \<open>
  One callback of the \<^verbatim>\<open>forEach\<close> of \<^verbatim>\<open>notifyContentScriptsAboutAddressChange\<close>. A port
  without a sender URL makes \<^verbatim>\<open>new URL\<close> throw inside the callback, which then posts
  nothing. An absent \<^verbatim>\<open>newAddress\<close> is \<^verbatim>\<open>undefined\<close>, and \<^verbatim>\<open>[newAddress]\<close> is then the
  one-element array holding \<^verbatim>\<open>undefined\<close>.
\<close>

definition notifyPort :: "env \<Rightarrow> service \<Rightarrow> string option \<Rightarrow> Port \<Rightarrow> effect list" where
  "notifyPort e s newAddress port =
     (case sender_url port of
        None \<Rightarrow> []
      | Some url \<Rightarrow>
          (let orig = URL_origin e url
           in if checkPermission s orig None \<noteq> None then
                [PostMessage (port_id port)
                   \<lparr>resp_id = ''tallyHo'',
                    result = Result (JObj [(''method'', JStr ''tally_accountChanged''),
                                           (''address'',
                                            JArr [case newAddress of Some a \<Rightarrow> JStr a
                                                  | None \<Rightarrow> JUndefined])])\<rparr>]
              else
                [PostMessage (port_id port)
                   \<lparr>resp_id = ''tallyHo'',
                    result = Result (JObj [(''method'', JStr ''tally_accountChanged''),
                                           (''address'', JArr [])])\<rparr>]))"

definition notifyContentScriptsAboutAddressChange ::
  "env \<Rightarrow> service \<Rightarrow> string option \<Rightarrow> effect list" where
  "notifyContentScriptsAboutAddressChange e s newAddress =
     concat (map (notifyPort e s newAddress) (openPorts s))"

subsection \<open>Consent\<close>

text \<open>
  \<^verbatim>\<open>requestPermission\<close> emits the request, opens the popup and, once the popup is there,
  stores the resolver of a new promise under the origin. When the popup fails the method
  fails before it creates the promise.
\<close>

definition requestPermission ::
  "env \<Rightarrow> service \<Rightarrow> PermissionRequest \<Rightarrow> effect list \<times> (exn + nat) \<times> service" where
  "requestPermission e s permissionRequest =
     (let effs = [Emit (requestPermissionEvent permissionRequest), ShowPopup dappPermission]
      in case showExtensionPopup e dappPermission of
           Inl err \<Rightarrow> (effs, Inl err, s)
         | Inr _ \<Rightarrow>
             (effs, Inr (promiseCounter s),
              s\<lparr>pendingPermissionsRequests :=
                   (pendingPermissionsRequests s)(origin permissionRequest \<mapsto> promiseCounter s),
                 promiseCounter := Suc (promiseCounter s)\<rparr>))"

definition grantPermission :: "service \<Rightarrow> PermissionRequest \<Rightarrow> effect list \<times> service" where
  "grantPermission s permission =
     (if state permission \<noteq> ''allow'' \<or> accountAddress permission = [] then ([], s)
      else
        (let s1 = s\<lparr>db := db_setPermission (db s) permission\<rparr>
         in case pendingPermissionsRequests s1 (origin permission) of
              Some r \<Rightarrow>
                ([Resolved r (Inl permission)],
                 s1\<lparr>pendingPermissionsRequests :=
                      (pendingPermissionsRequests s1)(origin permission := None)\<rparr>)
            | None \<Rightarrow> ([], s1)))"

definition denyOrRevokePermission ::
  "env \<Rightarrow> service \<Rightarrow> PermissionRequest \<Rightarrow> effect list \<times> service" where
  "denyOrRevokePermission e s permission =
     (if state permission \<noteq> ''deny'' \<or> accountAddress permission = [] then ([], s)
      else
        (let address = selectedAccount s;
             s1 = s\<lparr>db := db_deletePermission (db s) (origin permission) address\<rparr>;
             (effs, s2) =
               (case pendingPermissionsRequests s1 (origin permission) of
                  Some r \<Rightarrow>
                    ([Resolved r (Inr ''Time to move on'')],
                     s1\<lparr>pendingPermissionsRequests :=
                          (pendingPermissionsRequests s1)(origin permission := None)\<rparr>)
                | None \<Rightarrow> ([], s1))
         in (effs @ notifyContentScriptsAboutAddressChange e s2 None, s2)))"

subsection \<open>The message listener\<close>

text \<open>\<^verbatim>\<open>{...tab, ...queried}\<close>: a property of the queried tab replaces the one of \<^verbatim>\<open>tab\<close>.\<close>

definition spread :: "Tab \<Rightarrow> Tab \<Rightarrow> Tab" where
  "spread t u =
     \<lparr>tab_id = (case tab_id u of Some x \<Rightarrow> Some x | None \<Rightarrow> tab_id t),
      favIconUrl = (case favIconUrl u of Some x \<Rightarrow> Some x | None \<Rightarrow> favIconUrl t),
      tab_title = (case tab_title u of Some x \<Rightarrow> Some x | None \<Rightarrow> tab_title t)\<rparr>"

definition completeTab :: "env \<Rightarrow> Tab option \<Rightarrow> Tab option" where
  "completeTab e tab =
     (case tab of
        None \<Rightarrow> None
      | Some t \<Rightarrow> (case tab_id t of None \<Rightarrow> Some t | Some i \<Rightarrow> Some (spread t (tabs_get e i))))"

text \<open>
  The request for consent that the listener builds: the tab's favicon and title, each the
  empty string when missing, and the account that is selected at that moment.
\<close>

definition newPermissionRequest :: "env \<Rightarrow> service \<Rightarrow> Port \<Rightarrow> string \<Rightarrow> PermissionRequest" where
  "newPermissionRequest e s port orig =
     (let tab = completeTab e (sender_tab port);
          favicon = (case tab of Some t \<Rightarrow> (case favIconUrl t of Some f \<Rightarrow> f | None \<Rightarrow> [])
                     | None \<Rightarrow> []);
          ttl = (case tab of Some t \<Rightarrow> (case tab_title t of Some f \<Rightarrow> f | None \<Rightarrow> [])
                 | None \<Rightarrow> []);
          address = selectedAccount s
      in \<lparr>key = orig @ ''_'' @ address,
          origin = orig,
          faviconUrl = favicon,
          title = ttl,
          state = ''request'',
          accountAddress = address\<rparr>)"

definition post :: "Port \<Rightarrow> string \<Rightarrow> response_result \<Rightarrow> effect" where
  "post port i r = PostMessage (port_id port) \<lparr>resp_id = i, result = r\<rparr>"

text \<open>
  The listener after \<^verbatim>\<open>await blockUntilUserAction\<close>: it looks the grant up again and
  answers with the accounts, or with a rejection when there is still no grant.
\<close>

definition afterUserAction ::
  "env \<Rightarrow> service \<Rightarrow> Port \<Rightarrow> PortRequestEvent \<Rightarrow> string \<Rightarrow> effect list \<times> service" where
  "afterUserAction e s port event orig =
     (case checkPermission s orig None of
        Some persistedPermission \<Rightarrow>
          (case routeContentScriptRPCRequest e persistedPermission ''eth_accounts''
                  (params (request event)) of
             (r, effs) \<Rightarrow> (effs @ [post port (req_id event) r], s))
      | None \<Rightarrow> ([post port (req_id event) (EIP1193Error userRejectedRequest)], s))"

text \<open>
  \<^verbatim>\<open>onMessageListener\<close> up to its reply, or up to the wait for the user: the listener is
  then recorded as suspended on the promise, and nothing is posted yet. A failing popup
  ends the listener without a reply. The test \<^verbatim>\<open>typeof referrer !== "string"\<close> is the case
  distinction on the first parameter; \<^verbatim>\<open>String(referrer)\<close> of a string is the string.
\<close>

definition onMessageListener ::
  "env \<Rightarrow> service \<Rightarrow> Port \<Rightarrow> PortRequestEvent \<Rightarrow> effect list \<times> service" where
  "onMessageListener e s port event =
     (case sender_url port of
        None \<Rightarrow> ([], s)
      | Some url \<Rightarrow>
          (let orig = URL_origin e url;
               originPermission = checkPermission s orig None
           in if isTallyConfigPayload e (request event) then
                ([post port ''tallyHo''
                    (Result (JObj [(''method'', JStr (methodName (request event))),
                                   (''defaultWallet'', JBool (defaultWallet s))]))], s)
              else if methodName (request event) = ''tally_setClaimReferrer'' then
                (case param (params (request event)) 0 of
                   JStr referrer \<Rightarrow>
                     if orig \<noteq> WEBSITE_ORIGIN e then ([], s)
                     else ([Emit (setClaimReferrerEvent referrer),
                            post port (req_id event) (Result JNull)], s)
                 | _ \<Rightarrow> ([], s))
              else
                (case originPermission of
                   Some permission \<Rightarrow>
                     (case routeContentScriptRPCRequest e permission (methodName (request event))
                             (params (request event)) of
                        (r, effs) \<Rightarrow> (effs @ [post port (req_id event) r], s))
                 | None \<Rightarrow>
                     if methodName (request event) = ''eth_requestAccounts'' then
                       (let permissionRequest = newPermissionRequest e s port orig
                        in case requestPermission e s permissionRequest of
                             (effs, Inl err, s1) \<Rightarrow> (effs, s1)
                           | (effs, Inr n, s1) \<Rightarrow>
                               (effs, s1\<lparr>suspended := (suspended s1)(n \<mapsto> (port, event, orig))\<rparr>))
                     else ([post port (req_id event) (EIP1193Error unauthorized)], s))))"

text \<open>
  The runtime resuming the listener that waits for promise \<open>n\<close>, once the promise has been
  resolved. A promise with no listener left resumes nothing.
\<close>

definition resume :: "env \<Rightarrow> service \<Rightarrow> nat \<Rightarrow> effect list \<times> service" where
  "resume e s n =
     (case suspended s n of
        None \<Rightarrow> ([], s)
      | Some (port, event, orig) \<Rightarrow>
          afterUserAction e (s\<lparr>suspended := (suspended s)(n := None)\<rparr>) port event orig)"

text \<open>\<^verbatim>\<open>typeof v === "string"\<close>\<close>

definition typeof_string :: "jsval \<Rightarrow> bool" where
  "typeof_string v = (case v of JStr _ \<Rightarrow> True | _ \<Rightarrow> False)"

subsection \<open>A concrete setting for the worked examples\<close>

text \<open>
  Two pages, each connected through one port, and a wallet whose selected account is
  \<^verbatim>\<open>0xabcd\<close>. URLs are written as origins already, so the example parser is the identity.
  The example provider answers \<^verbatim>\<open>eth_chainId\<close> and \<^verbatim>\<open>eth_sign\<close> and fails on everything
  else. The example
  normalization leaves a string as it is and fails on any other value; the addresses of
  the examples are lower-case hex strings of even length with the \<^verbatim>\<open>0x\<close> prefix, so
  already in normal form.
\<close>

definition example_env :: env where
  "example_env =
     \<lparr>isTallyConfigPayload = (\<lambda>r. methodName r = ''tally_getConfig''),
      WEBSITE_ORIGIN = ''https://tally.cash'',
      EXTERNAL_PORT_NAME = ''tally-external'',
      URL_origin = (\<lambda>u. u),
      tabs_get = (\<lambda>i. \<lparr>tab_id = Some i, favIconUrl = None, tab_title = Some ''page''\<rparr>),
      showExtensionPopup = (\<lambda>p. Inr (Some 7)),
      routeSafeRPCRequest =
        (\<lambda>m ps. if m = ''eth_chainId'' then Inr (JStr ''0x1'')
                else if m = ''eth_sign'' then Inr (JStr ''0x5167'')
                else Inl (Failure ''boom'')),
      normalizeHexAddress =
        (\<lambda>v. case v of JStr a \<Rightarrow> Inr a | _ \<Rightarrow> Inl (Failure ''not an address''))\<rparr>"

definition port_a :: Port where
  "port_a = \<lparr>port_id = 1, port_name = ''tally-external'',
             sender_url = Some ''https://a.example'', sender_tab = None\<rparr>"

definition port_b :: Port where
  "port_b = \<lparr>port_id = 2, port_name = ''tally-external'',
             sender_url = Some ''https://b.example'', sender_tab = None\<rparr>"

definition grant_for :: "string \<Rightarrow> string \<Rightarrow> string \<Rightarrow> PermissionRequest" where
  "grant_for orig address st =
     \<lparr>key = orig @ ''_'' @ address, origin = orig, faviconUrl = [], title = [],
      state = st, accountAddress = address\<rparr>"

definition fresh_service :: service where
  "fresh_service =
     \<lparr>db = Map.empty, pendingPermissionsRequests = Map.empty, openPorts = [port_a, port_b],
      selectedAccount = ''0xabcd'', defaultWallet = True, promiseCounter = 0,
      suspended = Map.empty\<rparr>"

text \<open>Both pages hold a grant for the selected account.\<close>

definition granted_service :: service where
  "granted_service =
     fresh_service\<lparr>db := [(''https://a.example'', ''0xabcd'') \<mapsto>
                               grant_for ''https://a.example'' ''0xabcd'' ''allow'',
                             (''https://b.example'', ''0xabcd'') \<mapsto>
                               grant_for ''https://b.example'' ''0xabcd'' ''allow'']\<rparr>"


definition rpc :: "string \<Rightarrow> string \<Rightarrow> jsval list \<Rightarrow> PortRequestEvent" where
  "rpc i m ps = \<lparr>req_id = i, request = \<lparr>methodName = m, params = ps\<rparr>\<rparr>"

section \<open>Properties\<close>

subsection \<open>Requests from an origin without a grant\<close>

text \<open>
  Claim C1. A message that is neither an internal configuration query nor a
  \<^verbatim>\<open>tally_setClaimReferrer\<close> message, from an origin for which the permission lookup finds
  no grant, and whose method is not \<^verbatim>\<open>eth_requestAccounts\<close>, is answered on its own port
  with the \<^verbatim>\<open>unauthorized\<close> error object under the request's id; nothing else happens and
  the service is unchanged.
\<close>

theorem unauthorized_without_grant:
  assumes "sender_url port = Some url"
    and "checkPermission s (URL_origin e url) None = None"
    and "\<not> isTallyConfigPayload e (request event)"
    and "methodName (request event) \<noteq> ''tally_setClaimReferrer''"
    and "methodName (request event) \<noteq> ''eth_requestAccounts''"
  shows "onMessageListener e s port event =
           ([PostMessage (port_id port)
               \<lparr>resp_id = req_id event, result = EIP1193Error unauthorized\<rparr>], s)"
  using assms by (simp add: onMessageListener_def post_def)

theorem unauthorized_without_grant_witness:
  "sender_url port_a = Some ''https://a.example''
   \<and> checkPermission fresh_service (URL_origin example_env ''https://a.example'') None = None
   \<and> \<not> isTallyConfigPayload example_env (request (rpc ''1'' ''eth_chainId'' []))
   \<and> methodName (request (rpc ''1'' ''eth_chainId'' [])) \<noteq> ''tally_setClaimReferrer''
   \<and> methodName (request (rpc ''1'' ''eth_chainId'' [])) \<noteq> ''eth_requestAccounts''
   \<and> onMessageListener example_env fresh_service port_a (rpc ''1'' ''eth_chainId'' []) =
        ([PostMessage 1 \<lparr>resp_id = ''1'', result = EIP1193Error unauthorized\<rparr>], fresh_service)"
  using unauthorized_without_grant
          [of port_a "''https://a.example''" fresh_service example_env
              "rpc ''1'' ''eth_chainId'' []"]
  by (simp add: port_a_def fresh_service_def example_env_def rpc_def checkPermission_def
      db_checkPermission_def)

subsection \<open>Routing with a grant\<close>

text \<open>
  What the router does check: when the compare of the parameter it looks at with the
  account of the grant does not succeed with true, the call is rejected and nothing else
  happens. The parameter is the first for typed data, the second for \<^verbatim>\<open>eth_sign\<close> and
  \<^verbatim>\<open>personal_sign\<close>, and the \<^verbatim>\<open>from\<close> field of the first for a transaction.
\<close>

lemma checked_parameter_mismatch_rejected:
  assumes "(typed_data_case m
            \<and> sameEVMAddress e (param ps 0) (JStr (accountAddress grant)) \<noteq> Inr True)
         \<or> (sign_case m
            \<and> sameEVMAddress e (param ps 1) (JStr (accountAddress grant)) \<noteq> Inr True)
         \<or> (transaction_case m
            \<and> sameEVMAddress e (property (param ps 0) ''from'') (JStr (accountAddress grant))
                \<noteq> Inr True)"
  shows "routeContentScriptRPCRequest e grant m ps = (EIP1193Error userRejectedRequest, [])"
proof -
  have "\<not> accounts_case m"
    using assms
    by (auto simp add: accounts_case_def typed_data_case_def sign_case_def transaction_case_def)
  moreover have "sign_case m \<Longrightarrow> \<not> typed_data_case m"
    by (auto simp add: typed_data_case_def sign_case_def)
  moreover have "transaction_case m \<Longrightarrow> \<not> typed_data_case m \<and> \<not> sign_case m"
    by (auto simp add: typed_data_case_def sign_case_def transaction_case_def)
  ultimately have "\<exists>err. route_try e grant m ps = (Inl err, [])"
    using assms
    by (auto simp add: route_try_def checkPermissionSignTypedData_def checkPermissionSign_def
        checkPermissionSignTransaction_def split: sum.splits)
  then show ?thesis
    by (auto simp add: routeContentScriptRPCRequest_def)
qed

text \<open>
  Claim C2 says that a signing call whose signer differs from the account of the grant
  fails and never reaches the internal provider. For \<^verbatim>\<open>eth_sign\<close> the signer is the first
  parameter and the message the second, the reverse of \<^verbatim>\<open>personal_sign\<close>, and the router
  compares the second parameter for both. So an \<^verbatim>\<open>eth_sign\<close> call whose message is the
  granted address is dispatched to the internal provider whoever its signer is, and an
  \<^verbatim>\<open>eth_sign\<close> call by the granted account is rejected when its message normalizes to
  something else than the granted address.
\<close>

theorem eth_sign_compares_the_message:
  assumes "normalizeHexAddress e (JStr (accountAddress grant)) = Inr x"
  shows "InternalCall ''eth_sign'' [signer, JStr (accountAddress grant)]
           \<in> set (snd (routeContentScriptRPCRequest e grant ''eth_sign''
                          [signer, JStr (accountAddress grant)]))
       \<and> (normalizeHexAddress e message = Inr y \<and> y \<noteq> x \<longrightarrow>
            routeContentScriptRPCRequest e grant ''eth_sign'' [JStr (accountAddress grant), message]
            = (EIP1193Error userRejectedRequest, []))"
proof -
  let ?ps = "[signer, JStr (accountAddress grant)]"
  have same: "sameEVMAddress e (param ?ps 1) (JStr (accountAddress grant)) = Inr True"
    using assms by (simp add: sameEVMAddress_def param_def)
  have cases: "\<not> accounts_case ''eth_sign''" "\<not> typed_data_case ''eth_sign''"
    "sign_case ''eth_sign''"
    by (simp_all add: accounts_case_def typed_data_case_def sign_case_def)
  obtain r effs where r: "routeSafeRequest e ''eth_sign'' ?ps (showExtensionPopup e personalSignData)
                          = (r, effs)"
    by (cases "routeSafeRequest e ''eth_sign'' ?ps (showExtensionPopup e personalSignData)")
  then have "InternalCall ''eth_sign'' ?ps \<in> set effs"
    by (auto simp add: routeSafeRequest_def split: sum.splits)
  moreover have "route_try e grant ''eth_sign'' ?ps = (r, ShowPopup personalSignData # effs)"
    using same cases r by (simp add: route_try_def checkPermissionSign_def)
  ultimately have first: "InternalCall ''eth_sign'' ?ps
           \<in> set (snd (routeContentScriptRPCRequest e grant ''eth_sign'' ?ps))"
    by (cases r) (simp_all add: routeContentScriptRPCRequest_def)
  have second: "routeContentScriptRPCRequest e grant ''eth_sign''
                  [JStr (accountAddress grant), message]
                = (EIP1193Error userRejectedRequest, [])"
    if "normalizeHexAddress e message = Inr y \<and> y \<noteq> x"
  proof -
    have "sameEVMAddress e (param [JStr (accountAddress grant), message] 1)
            (JStr (accountAddress grant)) \<noteq> Inr True"
      using that assms by (simp add: sameEVMAddress_def param_def)
    with cases(3) show ?thesis
      using checked_parameter_mismatch_rejected
              [of "''eth_sign''" e "[JStr (accountAddress grant), message]" grant]
      by simp
  qed
  from first second show ?thesis by blast
qed

theorem eth_sign_compares_the_message_witness:
  "normalizeHexAddress example_env
       (JStr (accountAddress (grant_for ''https://a.example'' ''0xabcd'' ''allow'')))
     = Inr ''0xabcd''
   \<and> InternalCall ''eth_sign'' [JStr ''0xdef0'', JStr ''0xabcd'']
       \<in> set (snd (routeContentScriptRPCRequest example_env
                      (grant_for ''https://a.example'' ''0xabcd'' ''allow'') ''eth_sign''
                      [JStr ''0xdef0'', JStr ''0xabcd'']))
   \<and> routeContentScriptRPCRequest example_env
        (grant_for ''https://a.example'' ''0xabcd'' ''allow'') ''eth_sign''
        [JStr ''0xdef0'', JStr ''0xabcd'']
      = (Result (JStr ''0x5167''),
         [ShowPopup personalSignData,
          InternalCall ''eth_sign'' [JStr ''0xdef0'', JStr ''0xabcd''],
          WindowsRemove 7])
   \<and> routeContentScriptRPCRequest example_env
        (grant_for ''https://a.example'' ''0xabcd'' ''allow'') ''eth_sign''
        [JStr ''0xabcd'', JStr ''0x1234'']
      = (EIP1193Error userRejectedRequest, [])"
proof -
  let ?g = "grant_for ''https://a.example'' ''0xabcd'' ''allow''"
  have a: "accountAddress ?g = ''0xabcd''"
    by (simp add: grant_for_def)
  have n: "normalizeHexAddress example_env (JStr (accountAddress ?g)) = Inr ''0xabcd''"
    by (simp add: example_env_def grant_for_def)
  have m: "normalizeHexAddress example_env (JStr ''0x1234'') = Inr ''0x1234''
           \<and> ''0x1234'' \<noteq> ''0xabcd''"
    by (simp add: example_env_def)
  have run: "routeContentScriptRPCRequest example_env ?g ''eth_sign''
               [JStr ''0xdef0'', JStr ''0xabcd'']
             = (Result (JStr ''0x5167''),
                [ShowPopup personalSignData,
                 InternalCall ''eth_sign'' [JStr ''0xdef0'', JStr ''0xabcd''],
                 WindowsRemove 7])"
    by (simp add: routeContentScriptRPCRequest_def route_try_def routeSafeRequest_def
        checkPermissionSign_def sameEVMAddress_def param_def example_env_def grant_for_def
        accounts_case_def typed_data_case_def sign_case_def)
  from n m run show ?thesis
    using eth_sign_compares_the_message
            [OF n, of "JStr ''0xdef0''" "JStr ''0x1234''" "''0x1234''"]
    by (simp add: a)
qed

text \<open>
  Claim C4. With a grant, \<^verbatim>\<open>eth_accounts\<close> and \<^verbatim>\<open>eth_requestAccounts\<close> return the
  one-element list holding the account of the grant, and the router performs no effect: no
  popup, no call of the internal provider.
\<close>

theorem accounts_answered_locally:
  "routeContentScriptRPCRequest e grant ''eth_accounts'' ps
     = (Result (JArr [JStr (accountAddress grant)]), [])
   \<and> routeContentScriptRPCRequest e grant ''eth_requestAccounts'' ps
     = (Result (JArr [JStr (accountAddress grant)]), [])"
  by (simp add: routeContentScriptRPCRequest_def route_try_def accounts_case_def)

theorem accounts_answered_locally_witness:
  "routeContentScriptRPCRequest example_env (grant_for ''https://a.example'' ''0xabcd'' ''allow'')
       ''eth_accounts'' []
     = (Result (JArr [JStr ''0xabcd'']), [])
   \<and> routeContentScriptRPCRequest example_env (grant_for ''https://a.example'' ''0xabcd'' ''allow'')
       ''eth_requestAccounts'' []
     = (Result (JArr [JStr ''0xabcd'']), [])"
  using accounts_answered_locally
          [of example_env "grant_for ''https://a.example'' ''0xabcd'' ''allow''" "[]"]
  by (simp add: grant_for_def)

lemma routeSafeRequest_fails:
  assumes "routeSafeRPCRequest e m ps = Inl err"
  shows "\<exists>err'. fst (routeSafeRequest e m ps popupPromise) = Inl err'"
  using assms by (simp add: routeSafeRequest_def split: sum.splits)

lemma route_try_dispatch_fails:
  assumes "routeSafeRPCRequest e m ps = Inl err" and "\<not> accounts_case m"
  shows "\<exists>err'. fst (route_try e grant m ps) = Inl err'"
proof -
  have "\<exists>err'. fst (case routeSafeRequest e m ps q of (r, effs) \<Rightarrow> (r, x # effs)) = Inl err'"
    for q x
    using routeSafeRequest_fails [OF assms(1), of q]
    by (cases "routeSafeRequest e m ps q") simp
  then show ?thesis
    using assms by (simp add: route_try_def split: sum.splits)
qed

lemma route_result_shape:
  "fst (routeContentScriptRPCRequest e grant m ps) = EIP1193Error userRejectedRequest
   \<or> (\<exists>v. fst (routeContentScriptRPCRequest e grant m ps) = Result v)"
  by (cases "route_try e grant m ps")
     (auto simp add: routeContentScriptRPCRequest_def split: sum.splits)

text \<open>
  Claim C8. Whatever is thrown inside the router is caught there. When the body of the
  \<^verbatim>\<open>try\<close> fails, with any exception and after any effects, the router returns the
  \<^verbatim>\<open>userRejectedRequest\<close> error object; in particular it does so when the dispatch to the
  internal provider fails, for every method that is dispatched. The value the router
  returns is either that object or a successful result, and never the \<^verbatim>\<open>unauthorized\<close>
  object; the exception itself is not part of it.
\<close>

theorem router_catches_failures:
  "(route_try e grant m ps = (Inl err, effs) \<longrightarrow>
       routeContentScriptRPCRequest e grant m ps = (EIP1193Error userRejectedRequest, effs))
   \<and> (routeSafeRPCRequest e m ps = Inl err' \<and> \<not> accounts_case m \<longrightarrow>
         fst (routeContentScriptRPCRequest e grant m ps) = EIP1193Error userRejectedRequest)
   \<and> (fst (routeContentScriptRPCRequest e grant m ps) = EIP1193Error userRejectedRequest
        \<or> (\<exists>v. fst (routeContentScriptRPCRequest e grant m ps) = Result v))
   \<and> fst (routeContentScriptRPCRequest e grant m ps) \<noteq> EIP1193Error unauthorized"
proof (intro conjI impI)
  assume "route_try e grant m ps = (Inl err, effs)"
  then show "routeContentScriptRPCRequest e grant m ps = (EIP1193Error userRejectedRequest, effs)"
    by (simp add: routeContentScriptRPCRequest_def)
next
  assume a: "routeSafeRPCRequest e m ps = Inl err' \<and> \<not> accounts_case m"
  then obtain x where "fst (route_try e grant m ps) = Inl x"
    using route_try_dispatch_fails [of e m ps err' grant] by blast
  then show "fst (routeContentScriptRPCRequest e grant m ps) = EIP1193Error userRejectedRequest"
    by (cases "route_try e grant m ps") (simp add: routeContentScriptRPCRequest_def)
next
  show "fst (routeContentScriptRPCRequest e grant m ps) = EIP1193Error userRejectedRequest
        \<or> (\<exists>v. fst (routeContentScriptRPCRequest e grant m ps) = Result v)"
    by (rule route_result_shape)
next
  show "fst (routeContentScriptRPCRequest e grant m ps) \<noteq> EIP1193Error unauthorized"
    using route_result_shape [of e grant m ps] by auto
qed

theorem router_catches_failures_witness:
  "route_try example_env (grant_for ''https://a.example'' ''0xabcd'' ''allow'') ''eth_getBalance'' []
     = (Inl (Failure ''boom''), [InternalCall ''eth_getBalance'' []])
   \<and> routeSafeRPCRequest example_env ''eth_getBalance'' [] = Inl (Failure ''boom'')
   \<and> \<not> accounts_case ''eth_getBalance''
   \<and> routeContentScriptRPCRequest example_env (grant_for ''https://a.example'' ''0xabcd'' ''allow'')
        ''eth_getBalance'' []
     = (EIP1193Error userRejectedRequest, [InternalCall ''eth_getBalance'' []])"
proof -
  have h: "route_try example_env (grant_for ''https://a.example'' ''0xabcd'' ''allow'')
             ''eth_getBalance'' []
           = (Inl (Failure ''boom''), [InternalCall ''eth_getBalance'' []])"
    by (simp add: route_try_def example_env_def accounts_case_def typed_data_case_def
        sign_case_def transaction_case_def)
  have k: "routeSafeRPCRequest example_env ''eth_getBalance'' [] = Inl (Failure ''boom'')"
    by (simp add: example_env_def)
  have n: "\<not> accounts_case ''eth_getBalance''"
    by (simp add: accounts_case_def)
  from h k n show ?thesis
    using router_catches_failures
            [of example_env "grant_for ''https://a.example'' ''0xabcd'' ''allow''"
                "''eth_getBalance''" "[]" "Failure ''boom''"
                "[InternalCall ''eth_getBalance'' []]" "Failure ''boom''"]
    by simp
qed

subsection \<open>The claim-referrer side channel\<close>

text \<open>
  Claim C10. A \<^verbatim>\<open>tally_setClaimReferrer\<close> message, one that is not an internal
  configuration query, from an origin other than the allowed website, or with a first
  parameter that is not a string, makes the listener return at once: it emits nothing and
  posts nothing, so the caller receives no reply at all, and the service is unchanged.
\<close>

theorem invalid_claim_referrer_unanswered:
  assumes "sender_url port = Some url"
    and "\<not> isTallyConfigPayload e (request event)"
    and "methodName (request event) = ''tally_setClaimReferrer''"
    and "URL_origin e url \<noteq> WEBSITE_ORIGIN e
         \<or> \<not> typeof_string (param (params (request event)) 0)"
  shows "onMessageListener e s port event = ([], s)"
  using assms
  by (auto simp add: onMessageListener_def typeof_string_def split: jsval.splits)

theorem invalid_claim_referrer_unanswered_witness:
  "sender_url port_a = Some ''https://a.example''
   \<and> \<not> isTallyConfigPayload example_env
          (request (rpc ''9'' ''tally_setClaimReferrer'' [JStr ''friend'']))
   \<and> methodName (request (rpc ''9'' ''tally_setClaimReferrer'' [JStr ''friend'']))
       = ''tally_setClaimReferrer''
   \<and> URL_origin example_env ''https://a.example'' \<noteq> WEBSITE_ORIGIN example_env
   \<and> onMessageListener example_env granted_service port_a
        (rpc ''9'' ''tally_setClaimReferrer'' [JStr ''friend'']) = ([], granted_service)"
  using invalid_claim_referrer_unanswered
          [of port_a "''https://a.example''" example_env
              "rpc ''9'' ''tally_setClaimReferrer'' [JStr ''friend'']" granted_service]
  by (simp add: port_a_def example_env_def rpc_def)


subsection \<open>The account-change broadcast\<close>

text \<open>
  Only ports with a sender URL are stored, so every stored port is sent exactly one
  \<^verbatim>\<open>tally_accountChanged\<close> message; its address list is empty when the lookup for the
  port's origin finds no grant, and holds the argument of the broadcast otherwise.
\<close>

lemma onConnect_keeps_urls:
  assumes "\<forall>p \<in> set (openPorts s). sender_url p \<noteq> None"
  shows "\<forall>p \<in> set (openPorts (onConnect e s port)). sender_url p \<noteq> None"
  using assms by (auto simp add: onConnect_def)

lemma onDisconnect_keeps_urls:
  assumes "\<forall>p \<in> set (openPorts s). sender_url p \<noteq> None"
  shows "\<forall>p \<in> set (openPorts (onDisconnect s port)). sender_url p \<noteq> None"
  using assms by (auto simp add: onDisconnect_def)




subsection \<open>The callbacks of the consent UI\<close>




subsection \<open>The lookup of a grant\<close>

lemma requestAccounts_without_grant:
  assumes "sender_url port = Some url"
    and "checkPermission s (URL_origin e url) None = None"
    and "\<not> isTallyConfigPayload e (request event)"
    and "methodName (request event) = ''eth_requestAccounts''"
  shows "onMessageListener e s port event =
           (case requestPermission e s (newPermissionRequest e s port (URL_origin e url)) of
              (effs, Inl err, s1) \<Rightarrow> (effs, s1)
            | (effs, Inr n, s1) \<Rightarrow>
                (effs, s1\<lparr>suspended := (suspended s1)(n \<mapsto> (port, event, URL_origin e url))\<rparr>))"
  using assms by (simp add: onMessageListener_def Let_def)

lemma newPermissionRequest_fields:
  "origin (newPermissionRequest e s port orig) = orig"
  "accountAddress (newPermissionRequest e s port orig) = selectedAccount s"
  "state (newPermissionRequest e s port orig) = ''request''"
  by (simp_all add: newPermissionRequest_def Let_def)



subsection \<open>The table of pending consent\<close>

lemma requestPermission_registers:
  assumes "showExtensionPopup e dappPermission = Inr w"
  shows "requestPermission e s pr =
           ([Emit (requestPermissionEvent pr), ShowPopup dappPermission],
            Inr (promiseCounter s),
            s\<lparr>pendingPermissionsRequests :=
                 (pendingPermissionsRequests s)(origin pr \<mapsto> promiseCounter s),
               promiseCounter := Suc (promiseCounter s)\<rparr>)"
  using assms by (simp add: requestPermission_def Let_def)

lemma requestAccounts_suspends:
  assumes "sender_url port = Some url"
    and "checkPermission s (URL_origin e url) None = None"
    and "\<not> isTallyConfigPayload e (request event)"
    and "methodName (request event) = ''eth_requestAccounts''"
    and "showExtensionPopup e dappPermission = Inr w"
  shows "onMessageListener e s port event =
           ([Emit (requestPermissionEvent (newPermissionRequest e s port (URL_origin e url))),
             ShowPopup dappPermission],
            s\<lparr>pendingPermissionsRequests :=
                 (pendingPermissionsRequests s)(URL_origin e url \<mapsto> promiseCounter s),
               promiseCounter := Suc (promiseCounter s),
               suspended := (suspended s)(promiseCounter s \<mapsto> (port, event, URL_origin e url))\<rparr>)"
  using requestAccounts_without_grant [OF assms(1-4)]
        requestPermission_registers [OF assms(5), of s "newPermissionRequest e s port (URL_origin e url)"]
  by (simp add: newPermissionRequest_fields)

text \<open>
  Claim C7. The table maps an origin to one resolver. Two \<^verbatim>\<open>eth_requestAccounts\<close>
  messages from the same origin, handled one after the other before the user answers, each
  register a resolver: the second replaces the first, the entries of other origins stay as
  they were, and both listeners are suspended. A grant for the origin then resolves the
  second resolver only and removes the entry; the listener of the second message resumes
  and, when the grant is for the selected account, answers with that account. The first
  listener stays suspended: a later grant resolves nothing and a later denial never
  resolves the first resolver. A denial in place of the grant would likewise resolve the
  second resolver and remove the entry.
\<close>

theorem second_request_overwrites_resolver:
  assumes "sender_url port1 = Some url1" and "sender_url port2 = Some url2"
    and "URL_origin e url1 = orig" and "URL_origin e url2 = orig"
    and "checkPermission s orig None = None"
    and "\<not> isTallyConfigPayload e (request event1)"
    and "\<not> isTallyConfigPayload e (request event2)"
    and "methodName (request event1) = ''eth_requestAccounts''"
    and "methodName (request event2) = ''eth_requestAccounts''"
    and "showExtensionPopup e dappPermission = Inr w"
    and "onMessageListener e s port1 event1 = (effs1, s1)"
    and "onMessageListener e s1 port2 event2 = (effs2, s2)"
    and "origin p = orig" and "state p = ''allow''" and "accountAddress p \<noteq> []"
    and "grantPermission s2 p = (effs3, s3)"
    and "origin q = orig"
  shows "pendingPermissionsRequests s1 orig = Some (promiseCounter s)
       \<and> pendingPermissionsRequests s2 orig = Some (Suc (promiseCounter s))
       \<and> (\<forall>o'. o' \<noteq> orig \<longrightarrow>
             pendingPermissionsRequests s2 o' = pendingPermissionsRequests s o')
       \<and> suspended s2 (promiseCounter s) = Some (port1, event1, orig)
       \<and> suspended s2 (Suc (promiseCounter s)) = Some (port2, event2, orig)
       \<and> effs3 = [Resolved (Suc (promiseCounter s)) (Inl p)]
       \<and> pendingPermissionsRequests s3 orig = None
       \<and> suspended s3 (promiseCounter s) = Some (port1, event1, orig)
       \<and> (accountAddress p = selectedAccount s \<longrightarrow>
            fst (resume e s3 (Suc (promiseCounter s))) =
              [PostMessage (port_id port2)
                 \<lparr>resp_id = req_id event2,
                  result = Result (JArr [JStr (accountAddress p)])\<rparr>])
       \<and> fst (grantPermission s3 q) = []
       \<and> (\<forall>x. Resolved (promiseCounter s) x \<notin> set (fst (denyOrRevokePermission e s3 q)))
       \<and> (state q = ''deny'' \<and> accountAddress q \<noteq> [] \<longrightarrow>
            pendingPermissionsRequests (snd (denyOrRevokePermission e s2 q)) orig = None
            \<and> fst (denyOrRevokePermission e s2 q) =
                Resolved (Suc (promiseCounter s)) (Inr ''Time to move on'')
                # notifyContentScriptsAboutAddressChange e
                    (snd (denyOrRevokePermission e s2 q)) None)"
proof -
  have s1: "s1 = s\<lparr>pendingPermissionsRequests :=
                 (pendingPermissionsRequests s)(orig \<mapsto> promiseCounter s),
               promiseCounter := Suc (promiseCounter s),
               suspended := (suspended s)(promiseCounter s \<mapsto> (port1, event1, orig))\<rparr>"
    using requestAccounts_suspends [of port1 url1 s e event1 w] assms by simp
  then have chk1: "checkPermission s1 (URL_origin e url2) None = None"
    using assms(4,5) by (simp add: checkPermission_def)
  have s2: "s2 = s1\<lparr>pendingPermissionsRequests :=
                 (pendingPermissionsRequests s1)(orig \<mapsto> promiseCounter s1),
               promiseCounter := Suc (promiseCounter s1),
               suspended := (suspended s1)(promiseCounter s1 \<mapsto> (port2, event2, orig))\<rparr>"
    using requestAccounts_suspends [of port2 url2 s1 e event2 w] assms chk1 by simp
  have c1: "pendingPermissionsRequests s1 orig = Some (promiseCounter s)"
    by (simp add: s1)
  have c2: "pendingPermissionsRequests s2 orig = Some (Suc (promiseCounter s))"
    by (simp add: s2 s1)
  have c3: "\<forall>o'. o' \<noteq> orig \<longrightarrow>
              pendingPermissionsRequests s2 o' = pendingPermissionsRequests s o'"
    by (simp add: s2 s1)
  have c4: "suspended s2 (promiseCounter s) = Some (port1, event1, orig)"
    by (simp add: s2 s1)
  have c5: "suspended s2 (Suc (promiseCounter s)) = Some (port2, event2, orig)"
    by (simp add: s2 s1)
  have g: "grantPermission s2 p =
            ([Resolved (Suc (promiseCounter s)) (Inl p)],
             s2\<lparr>db := db_setPermission (db s2) p,
                pendingPermissionsRequests := (pendingPermissionsRequests s2)(orig := None)\<rparr>)"
    using assms(13-15) c2 by (simp add: grantPermission_def Let_def)
  with assms(16) have c6: "effs3 = [Resolved (Suc (promiseCounter s)) (Inl p)]"
    by simp
  from g assms(16) have s3: "s3 = s2\<lparr>db := db_setPermission (db s2) p,
                pendingPermissionsRequests := (pendingPermissionsRequests s2)(orig := None)\<rparr>"
    by simp
  have c7: "pendingPermissionsRequests s3 orig = None"
    by (simp add: s3)
  have c8: "suspended s3 (promiseCounter s) = Some (port1, event1, orig)"
    using c4 by (simp add: s3)
  have c9: "fst (resume e s3 (Suc (promiseCounter s))) =
              [PostMessage (port_id port2)
                 \<lparr>resp_id = req_id event2,
                  result = Result (JArr [JStr (accountAddress p)])\<rparr>]"
    if "accountAddress p = selectedAccount s"
  proof -
    have "suspended s3 (Suc (promiseCounter s)) = Some (port2, event2, orig)"
      using c5 by (simp add: s3)
    moreover have "checkPermission (s3\<lparr>suspended := (suspended s3)(Suc (promiseCounter s) := None)\<rparr>)
                     orig None = Some p"
      using that assms(13)
      by (simp add: s3 s2 s1 checkPermission_def db_checkPermission_def db_setPermission_def)
    ultimately show ?thesis
      by (simp add: resume_def afterUserAction_def routeContentScriptRPCRequest_def
          route_try_def accounts_case_def post_def)
  qed
  have c10: "fst (grantPermission s3 q) = []"
    using c7 assms(17) by (simp add: grantPermission_def Let_def)
  have c11: "\<forall>x. Resolved (promiseCounter s) x \<notin> set (fst (denyOrRevokePermission e s3 q))"
    using c7 assms(17)
    by (auto simp add: denyOrRevokePermission_def Let_def
        notifyContentScriptsAboutAddressChange_def notifyPort_def split: option.splits)
  have c12: "pendingPermissionsRequests (snd (denyOrRevokePermission e s2 q)) orig = None
            \<and> fst (denyOrRevokePermission e s2 q) =
                Resolved (Suc (promiseCounter s)) (Inr ''Time to move on'')
                # notifyContentScriptsAboutAddressChange e
                    (snd (denyOrRevokePermission e s2 q)) None"
    if "state q = ''deny'' \<and> accountAddress q \<noteq> []"
    using that c2 assms(17) by (simp add: denyOrRevokePermission_def Let_def)
  from c1 c2 c3 c4 c5 c6 c7 c8 c9 c10 c11 c12 show ?thesis
    by blast
qed

theorem second_request_overwrites_resolver_witness:
  "checkPermission fresh_service ''https://a.example'' None = None
   \<and> showExtensionPopup example_env dappPermission = Inr (Some 7)
   \<and> pendingPermissionsRequests
        (snd (onMessageListener example_env fresh_service port_a
                (rpc ''1'' ''eth_requestAccounts'' [])))
        ''https://a.example'' = Some 0
   \<and> pendingPermissionsRequests
        (snd (onMessageListener example_env
                (snd (onMessageListener example_env fresh_service port_a
                        (rpc ''1'' ''eth_requestAccounts'' [])))
                port_a (rpc ''2'' ''eth_requestAccounts'' [])))
        ''https://a.example'' = Some 1
   \<and> fst (grantPermission
             (snd (onMessageListener example_env
                     (snd (onMessageListener example_env fresh_service port_a
                             (rpc ''1'' ''eth_requestAccounts'' [])))
                     port_a (rpc ''2'' ''eth_requestAccounts'' [])))
             (grant_for ''https://a.example'' ''0xabcd'' ''allow''))
      = [Resolved 1 (Inl (grant_for ''https://a.example'' ''0xabcd'' ''allow''))]"
proof -
  let ?ev1 = "rpc ''1'' ''eth_requestAccounts'' []"
  let ?ev2 = "rpc ''2'' ''eth_requestAccounts'' []"
  let ?p = "grant_for ''https://a.example'' ''0xabcd'' ''allow''"
  let ?r1 = "onMessageListener example_env fresh_service port_a ?ev1"
  let ?r2 = "onMessageListener example_env (snd ?r1) port_a ?ev2"
  let ?r3 = "grantPermission (snd ?r2) ?p"
  have url: "sender_url port_a = Some ''https://a.example''"
    by (simp add: port_a_def)
  have orig: "URL_origin example_env ''https://a.example'' = ''https://a.example''"
    by (simp add: example_env_def)
  have chk: "checkPermission fresh_service ''https://a.example'' None = None"
    by (simp add: checkPermission_def db_checkPermission_def fresh_service_def)
  have nc1: "\<not> isTallyConfigPayload example_env (request ?ev1)"
    and nc2: "\<not> isTallyConfigPayload example_env (request ?ev2)"
    by (simp_all add: example_env_def rpc_def)
  have m1: "methodName (request ?ev1) = ''eth_requestAccounts''"
    and m2: "methodName (request ?ev2) = ''eth_requestAccounts''"
    by (simp_all add: rpc_def)
  have pop: "showExtensionPopup example_env dappPermission = Inr (Some 7)"
    by (simp add: example_env_def)
  have r1: "?r1 = (fst ?r1, snd ?r1)" and r2: "?r2 = (fst ?r2, snd ?r2)"
    and r3: "?r3 = (fst ?r3, snd ?r3)"
    by simp_all
  have p: "origin ?p = ''https://a.example''" "state ?p = ''allow''" "accountAddress ?p \<noteq> []"
    by (simp_all add: grant_for_def)
  have n: "promiseCounter fresh_service = 0"
    by (simp add: fresh_service_def)
  from second_request_overwrites_resolver [OF url url orig orig chk nc1 nc2 m1 m2 pop r1 r2 p r3 p(1)] chk pop n
  show ?thesis
    by simp
qed

subsection \<open>The ids of replies and pushes\<close>

lemma routeSafeRequest_no_post:
  "PostMessage pid r \<notin> set (snd (routeSafeRequest e m ps q))"
  by (simp add: routeSafeRequest_def split: sum.splits option.splits)

lemma route_try_no_post:
  "PostMessage pid r \<notin> set (snd (route_try e grant m ps))"
proof -
  have "PostMessage pid r \<notin> set (snd (case routeSafeRequest e m ps q of
                                          (x, effs) \<Rightarrow> (x, ShowPopup page # effs)))" for q page
    using routeSafeRequest_no_post [of pid r e m ps q]
    by (cases "routeSafeRequest e m ps q") simp
  then show ?thesis
    by (simp add: route_try_def split: sum.splits)
qed

lemma route_no_post:
  "PostMessage pid r \<notin> set (snd (routeContentScriptRPCRequest e grant m ps))"
  using route_try_no_post [of pid r e grant m ps]
  by (cases "route_try e grant m ps")
     (simp add: routeContentScriptRPCRequest_def split: sum.splits)

lemma afterUserAction_ids:
  assumes "PostMessage pid r \<in> set (fst (afterUserAction e s port event orig))"
  shows "resp_id r = req_id event \<and> pid = port_id port"
proof (cases "checkPermission s orig None")
  case None
  with assms show ?thesis
    by (simp add: afterUserAction_def post_def)
next
  case (Some g)
  obtain x effs where x: "routeContentScriptRPCRequest e g ''eth_accounts'' (params (request event))
                           = (x, effs)"
    by (cases "routeContentScriptRPCRequest e g ''eth_accounts'' (params (request event))")
  with route_no_post [of pid r e g "''eth_accounts''" "params (request event)"]
  have "PostMessage pid r \<notin> set effs" by simp
  with assms Some x show ?thesis
    by (simp add: afterUserAction_def post_def)
qed

lemma onMessageListener_ids:
  assumes "\<not> isTallyConfigPayload e (request event)"
    and "PostMessage pid r \<in> set (fst (onMessageListener e s port event))"
  shows "resp_id r = req_id event \<and> pid = port_id port"
proof (cases "sender_url port")
  case None
  with assms show ?thesis by (simp add: onMessageListener_def)
next
  case (Some url)
  show ?thesis
  proof (cases "methodName (request event) = ''tally_setClaimReferrer''")
    case True
    with assms Some show ?thesis
      by (auto simp add: onMessageListener_def post_def split: jsval.splits if_splits)
  next
    case False
    note nref = this
    show ?thesis
    proof (cases "checkPermission s (URL_origin e url) None")
      case (Some g)
      obtain x effs where x:
        "routeContentScriptRPCRequest e g (methodName (request event)) (params (request event))
           = (x, effs)"
        by (cases "routeContentScriptRPCRequest e g (methodName (request event))
                     (params (request event))")
      with route_no_post [of pid r e g "methodName (request event)" "params (request event)"]
      have "PostMessage pid r \<notin> set effs" by simp
      with assms \<open>sender_url port = Some url\<close> nref Some x show ?thesis
        by (simp add: onMessageListener_def post_def)
    next
      case None
      with assms \<open>sender_url port = Some url\<close> nref show ?thesis
        by (auto simp add: onMessageListener_def post_def Let_def requestPermission_def
            split: if_splits sum.splits)
    qed
  qed
qed

text \<open>
  Claim C9, as amended. The claim says that the reply to a request always carries the
  request's id and that the id \<^verbatim>\<open>tallyHo\<close> is left to pushes. The listener sets the id of
  its reply to an internal configuration query to \<^verbatim>\<open>tallyHo\<close>, so the claim fails there,
  as the example after the theorem shows. What holds: every reply to a message that
  is not an internal configuration query, sent at once or after the wait for the user,
  is posted on the port of the message under the id of the message; the reply to an
  internal configuration query and every message of the two broadcasts carry the id
  \<^verbatim>\<open>tallyHo\<close>.
\<close>

theorem reply_echoes_request_id:
  "(\<not> isTallyConfigPayload e (request event)
      \<and> PostMessage pid r \<in> set (fst (onMessageListener e s port event))
     \<longrightarrow> resp_id r = req_id event \<and> pid = port_id port)
   \<and> (suspended s n = Some (port, event, orig)
      \<and> PostMessage pid r \<in> set (fst (resume e s n))
     \<longrightarrow> resp_id r = req_id event \<and> pid = port_id port)
   \<and> (isTallyConfigPayload e (request event)
      \<and> PostMessage pid r \<in> set (fst (onMessageListener e s port event))
     \<longrightarrow> resp_id r = ''tallyHo'' \<and> pid = port_id port)
   \<and> (PostMessage pid r \<in> set (notifyContentScriptAboutConfigChange s b)
     \<longrightarrow> resp_id r = ''tallyHo'')
   \<and> (PostMessage pid r \<in> set (notifyContentScriptsAboutAddressChange e s a)
     \<longrightarrow> resp_id r = ''tallyHo'')"
proof -
  have a1: "\<not> isTallyConfigPayload e (request event)
      \<and> PostMessage pid r \<in> set (fst (onMessageListener e s port event))
     \<longrightarrow> resp_id r = req_id event \<and> pid = port_id port"
    using onMessageListener_ids by blast
  have a2: "suspended s n = Some (port, event, orig)
      \<and> PostMessage pid r \<in> set (fst (resume e s n))
     \<longrightarrow> resp_id r = req_id event \<and> pid = port_id port"
    using afterUserAction_ids [of pid r e "s\<lparr>suspended := (suspended s)(n := None)\<rparr>" port event orig]
    by (auto simp add: resume_def)
  have a3: "isTallyConfigPayload e (request event)
      \<and> PostMessage pid r \<in> set (fst (onMessageListener e s port event))
     \<longrightarrow> resp_id r = ''tallyHo'' \<and> pid = port_id port"
    by (cases "sender_url port") (auto simp add: onMessageListener_def post_def)
  have a4: "PostMessage pid r \<in> set (notifyContentScriptAboutConfigChange s b)
     \<longrightarrow> resp_id r = ''tallyHo''"
    by (auto simp add: notifyContentScriptAboutConfigChange_def)
  have a5: "PostMessage pid r \<in> set (notifyContentScriptsAboutAddressChange e s a)
     \<longrightarrow> resp_id r = ''tallyHo''"
    by (auto simp add: notifyContentScriptsAboutAddressChange_def notifyPort_def Let_def
        split: option.splits if_splits)
  show ?thesis
    by (intro conjI a1 a2 a3 a4 a5)
qed

text \<open>
  The counterexample to claim C9 as stated: a configuration query with id \<^verbatim>\<open>1\<close> is
  answered under the id \<^verbatim>\<open>tallyHo\<close>.
\<close>

theorem config_reply_carries_sentinel_id:
  "isTallyConfigPayload example_env (request (rpc ''1'' ''tally_getConfig'' []))
   \<and> onMessageListener example_env fresh_service port_a (rpc ''1'' ''tally_getConfig'' [])
     = ([PostMessage 1
           \<lparr>resp_id = ''tallyHo'',
            result = Result (JObj [(''method'', JStr ''tally_getConfig''),
                                   (''defaultWallet'', JBool True)])\<rparr>], fresh_service)
   \<and> req_id (rpc ''1'' ''tally_getConfig'' []) = ''1''
   \<and> ''1'' \<noteq> ''tallyHo''"
  by (simp add: onMessageListener_def example_env_def fresh_service_def port_a_def rpc_def
      post_def)

theorem reply_echoes_request_id_witness:
  "\<not> isTallyConfigPayload example_env (request (rpc ''1'' ''eth_chainId'' []))
   \<and> PostMessage 1 \<lparr>resp_id = ''1'', result = Result (JStr ''0x1'')\<rparr>
       \<in> set (fst (onMessageListener example_env granted_service port_a
                    (rpc ''1'' ''eth_chainId'' [])))
   \<and> resp_id \<lparr>resp_id = ''1'', result = Result (JStr ''0x1'')\<rparr>
       = req_id (rpc ''1'' ''eth_chainId'' [])
   \<and> 1 = port_id port_a"
proof -
  have h: "\<not> isTallyConfigPayload example_env (request (rpc ''1'' ''eth_chainId'' []))
     \<and> PostMessage 1 \<lparr>resp_id = ''1'', result = Result (JStr ''0x1'')\<rparr>
       \<in> set (fst (onMessageListener example_env granted_service port_a
                    (rpc ''1'' ''eth_chainId'' [])))"
    by (simp add: onMessageListener_def example_env_def granted_service_def fresh_service_def
        port_a_def rpc_def post_def checkPermission_def db_checkPermission_def
        routeContentScriptRPCRequest_def route_try_def accounts_case_def typed_data_case_def
        sign_case_def transaction_case_def grant_for_def Let_def)
  then show ?thesis
    using reply_echoes_request_id [of example_env "rpc ''1'' ''eth_chainId'' []" 1
                 "\<lparr>resp_id = ''1'', result = Result (JStr ''0x1'')\<rparr>" granted_service port_a]
    by blast
qed

subsection \<open>The broadcast after a revocation\<close>

text \<open>
  Claim C3 says that in every account-change broadcast, and in particular in the one that
  follows the revocation of another origin's grant, a port whose origin still has its grant
  receives the real address. \<^verbatim>\<open>denyOrRevokePermission\<close> calls the broadcast without an
  address. Here both pages hold a grant for the selected account \<^verbatim>\<open>0xabcd\<close> and the grant of
  the first page is revoked: the port of the first page receives the empty list, and the
  port of the second page, whose grant is still in the store, receives the one-element
  list holding \<^verbatim>\<open>undefined\<close>.
\<close>

theorem revoke_broadcast_sends_undefined:
  "denyOrRevokePermission example_env granted_service
       (grant_for ''https://a.example'' ''0xabcd'' ''deny'')
     = ([PostMessage 1
           \<lparr>resp_id = ''tallyHo'',
            result = Result (JObj [(''method'', JStr ''tally_accountChanged''),
                                   (''address'', JArr [])])\<rparr>,
         PostMessage 2
           \<lparr>resp_id = ''tallyHo'',
            result = Result (JObj [(''method'', JStr ''tally_accountChanged''),
                                   (''address'', JArr [JUndefined])])\<rparr>],
        granted_service\<lparr>db := [(''https://b.example'', ''0xabcd'') \<mapsto>
                                  grant_for ''https://b.example'' ''0xabcd'' ''allow'']\<rparr>)
   \<and> checkPermission
        (snd (denyOrRevokePermission example_env granted_service
                (grant_for ''https://a.example'' ''0xabcd'' ''deny'')))
        ''https://b.example'' None
      = Some (grant_for ''https://b.example'' ''0xabcd'' ''allow'')
   \<and> selectedAccount granted_service = ''0xabcd''"
  by (simp add: denyOrRevokePermission_def notifyContentScriptsAboutAddressChange_def
      notifyPort_def example_env_def granted_service_def fresh_service_def port_a_def
      port_b_def grant_for_def checkPermission_def db_checkPermission_def
      db_deletePermission_def Let_def)

text \<open>The message that the port of the second page receives in that broadcast.\<close>

theorem revoke_broadcast_sends_undefined_witness:
  "PostMessage 2
     \<lparr>resp_id = ''tallyHo'',
      result = Result (JObj [(''method'', JStr ''tally_accountChanged''),
                             (''address'', JArr [JUndefined])])\<rparr>
   \<in> set (fst (denyOrRevokePermission example_env granted_service
                 (grant_for ''https://a.example'' ''0xabcd'' ''deny'')))"
  using revoke_broadcast_sends_undefined by simp

end
